theory Spec2Isabelle
  imports
    Main
    "HOL-Library.Word"
    "HOL-Library.List_Lexorder"
    "HOL-Library.Option_ord"
    "HOL-Library.AList"
begin

unbundle bit_operations_syntax

section \<open>Python values\<close>

text \<open>
  A Python \<open>str\<close> is a sequence of code points; a code point is a natural number. Lone
  surrogates (U+D800 .. U+DFFF) are legal elements of a \<open>str\<close> (\<open>sys.argv\<close> holds them
  for undecodable bytes), so they are elements of the model too. \<open>bytes\<close> are lists of
  8-bit words. A string literal of the source is written \<open>lit ''...''\<close>.
\<close>

type_synonym pystr = "nat list"
type_synonym bytes = "8 word list"

definition lit :: "string \<Rightarrow> pystr" where
  "lit s = map of_char s"

text \<open>The exceptions that the modelled code can meet, by class.\<close>

datatype py_exn =
    OperationalError      \<comment> \<open>\<open>sqlite3.OperationalError\<close>: no such table, no such column, locked, cannot open\<close>
  | DatabaseError         \<comment> \<open>\<open>sqlite3.DatabaseError\<close> outside \<open>OperationalError\<close>: file is not a database\<close>
  | OverflowError         \<comment> \<open>a Python int that does not fit SQLite's 64-bit INTEGER\<close>
  | UnicodeEncodeError
  | UnicodeDecodeError
  | ImportError
  | ZstdError
  | NotADirectoryError
  | PermissionError
  | FileNotFoundError

section \<open>Strings\<close>

text \<open>\<open>str.startswith\<close>, \<open>str.endswith\<close> and the \<open>or\<close> of Python on optional strings.\<close>

definition startswith :: "pystr \<Rightarrow> pystr \<Rightarrow> bool" where
  "startswith s p = (take (length p) s = p)"

definition endswith :: "pystr \<Rightarrow> pystr \<Rightarrow> bool" where
  "endswith s p = (length p \<le> length s \<and> drop (length s - length p) s = p)"

definition por :: "pystr option \<Rightarrow> pystr \<Rightarrow> pystr" where
  "por a d = (case a of None \<Rightarrow> d | Some s \<Rightarrow> if s = [] then d else s)"

text \<open>\<open>str(i)\<close> for a natural number, as an f-string renders it.\<close>

fun str_of_nat :: "nat \<Rightarrow> pystr" where
  "str_of_nat n = (if n < 10 then [48 + n] else str_of_nat (n div 10) @ [48 + n mod 10])"

declare str_of_nat.simps [simp del]

text \<open>\<open>os.path.join\<close> of \<open>posixpath\<close>; the separator is code point 47.\<close>

definition join2 :: "pystr \<Rightarrow> pystr \<Rightarrow> pystr" where
  "join2 a b =
    (if startswith b [47] then b
     else if a = [] \<or> endswith a [47] then a @ b
     else a @ [47] @ b)"

definition path_join :: "pystr \<Rightarrow> pystr list \<Rightarrow> pystr" where
  "path_join a ps = foldl join2 a ps"

section \<open>UTF-8\<close>

text \<open>
  \<open>str.encode('utf-8')\<close>. A surrogate code point has no UTF-8 encoding: Python raises
  \<open>UnicodeEncodeError\<close> for the whole string. Code points of a \<open>str\<close> are below
  \<open>0x110000\<close>; the last branch is the four-byte form.
\<close>

definition encode_cp :: "nat \<Rightarrow> py_exn + bytes" where
  "encode_cp c =
    (if c < 0x80 then Inr [of_nat c]
     else if c < 0x800 then Inr [of_nat (0xC0 + c div 64), of_nat (0x80 + c mod 64)]
     else if 0xD800 \<le> c \<and> c \<le> 0xDFFF then Inl UnicodeEncodeError
     else if c < 0x10000 then
       Inr [of_nat (0xE0 + c div 4096), of_nat (0x80 + c div 64 mod 64), of_nat (0x80 + c mod 64)]
     else
       Inr [of_nat (0xF0 + c div 262144), of_nat (0x80 + c div 4096 mod 64),
            of_nat (0x80 + c div 64 mod 64), of_nat (0x80 + c mod 64)])"

fun utf8_encode :: "pystr \<Rightarrow> py_exn + bytes" where
  "utf8_encode [] = Inr []"
| "utf8_encode (c # cs) =
    (case encode_cp c of
       Inl e \<Rightarrow> Inl e
     | Inr b \<Rightarrow> (case utf8_encode cs of Inl e \<Rightarrow> Inl e | Inr bs \<Rightarrow> Inr (b @ bs)))"

text \<open>
  Decoding, as CPython's decoder does it: one step reads a character at the head of the
  input, or finds an error and says how many bytes the error covers (an invalid start
  byte covers one byte, an invalid continuation byte covers the bytes before it, an
  unexpected end of data covers the rest of the input).
\<close>

datatype utf8_step = Decoded nat nat | Invalid nat

definition is_cont :: "nat \<Rightarrow> bool" where
  "is_cont b = (0x80 \<le> b \<and> b < 0xC0)"

fun decode_step :: "nat list \<Rightarrow> utf8_step" where
  "decode_step [] = Invalid 0"
| "decode_step (c # rest) =
    (if c < 0x80 then Decoded c 1
     else if c < 0xC2 then Invalid 1
     else if c < 0xE0 then
       (case rest of
          [] \<Rightarrow> Invalid 1
        | b1 # _ \<Rightarrow> if is_cont b1 then Decoded ((c - 0xC0) * 64 + (b1 - 0x80)) 2 else Invalid 1)
     else if c < 0xF0 then
       (case rest of
          [] \<Rightarrow> Invalid 1
        | b1 # rest1 \<Rightarrow>
            if \<not> is_cont b1 \<or> (if b1 < 0xA0 then c = 0xE0 else c = 0xED) then Invalid 1
            else (case rest1 of
                    [] \<Rightarrow> Invalid 2
                  | b2 # _ \<Rightarrow>
                      if is_cont b2
                      then Decoded ((c - 0xE0) * 4096 + (b1 - 0x80) * 64 + (b2 - 0x80)) 3
                      else Invalid 2))
     else if c < 0xF5 then
       (case rest of
          [] \<Rightarrow> Invalid 1
        | b1 # rest1 \<Rightarrow>
            if \<not> is_cont b1 \<or> (if b1 < 0x90 then c = 0xF0 else c = 0xF4) then Invalid 1
            else (case rest1 of
                    [] \<Rightarrow> Invalid 2
                  | b2 # rest2 \<Rightarrow>
                      if \<not> is_cont b2 then Invalid 2
                      else (case rest2 of
                              [] \<Rightarrow> Invalid 3
                            | b3 # _ \<Rightarrow>
                                if is_cont b3
                                then Decoded ((c - 0xF0) * 262144 + (b1 - 0x80) * 4096
                                              + (b2 - 0x80) * 64 + (b3 - 0x80)) 4
                                else Invalid 3)))
     else Invalid 1)"

text \<open>
  \<open>bytes.decode('utf-8')\<close> raises at the first error;
  \<open>bytes.decode('utf-8', errors='ignore')\<close> drops the bytes of each error and goes on.
  A step on a non-empty input covers \<open>k \<ge> 1\<close> bytes, the head among them, so the
  rest of the input is \<open>drop (k - 1)\<close> of the tail.
\<close>

fun decode_strict :: "nat list \<Rightarrow> py_exn + pystr" where
  "decode_strict [] = Inr []"
| "decode_strict (b # bs) =
    (case decode_step (b # bs) of
       Invalid k \<Rightarrow> Inl UnicodeDecodeError
     | Decoded c k \<Rightarrow>
         (case decode_strict (drop (k - 1) bs) of Inl e \<Rightarrow> Inl e | Inr s \<Rightarrow> Inr (c # s)))"

fun decode_ignore :: "nat list \<Rightarrow> pystr" where
  "decode_ignore [] = []"
| "decode_ignore (b # bs) =
    (case decode_step (b # bs) of
       Invalid k \<Rightarrow> decode_ignore (drop (k - 1) bs)
     | Decoded c k \<Rightarrow> c # decode_ignore (drop (k - 1) bs))"

definition utf8_decode :: "bytes \<Rightarrow> py_exn + pystr" where
  "utf8_decode b = decode_strict (map unat b)"

definition utf8_decode_ignore :: "bytes \<Rightarrow> pystr" where
  "utf8_decode_ignore b = decode_ignore (map unat b)"

section \<open>MD5 and the table name\<close>

text \<open>
  \<open>hashlib.md5\<close> (RFC 1321): the per-round shift amounts, the sine table, the padding
  of the message to a multiple of 64 bytes, and the compression of each block. Words are
  32 bits wide and little-endian.
\<close>

definition md5_shift :: "nat list" where
  "md5_shift =
    [7, 12, 17, 22, 7, 12, 17, 22, 7, 12, 17, 22, 7, 12, 17, 22,
     5, 9, 14, 20, 5, 9, 14, 20, 5, 9, 14, 20, 5, 9, 14, 20,
     4, 11, 16, 23, 4, 11, 16, 23, 4, 11, 16, 23, 4, 11, 16, 23,
     6, 10, 15, 21, 6, 10, 15, 21, 6, 10, 15, 21, 6, 10, 15, 21]"

definition md5_sine :: "32 word list" where
  "md5_sine =
    [0xd76aa478, 0xe8c7b756, 0x242070db, 0xc1bdceee, 0xf57c0faf, 0x4787c62a, 0xa8304613, 0xfd469501,
     0x698098d8, 0x8b44f7af, 0xffff5bb1, 0x895cd7be, 0x6b901122, 0xfd987193, 0xa679438e, 0x49b40821,
     0xf61e2562, 0xc040b340, 0x265e5a51, 0xe9b6c7aa, 0xd62f105d, 0x02441453, 0xd8a1e681, 0xe7d3fbc8,
     0x21e1cde6, 0xc33707d6, 0xf4d50d87, 0x455a14ed, 0xa9e3e905, 0xfcefa3f8, 0x676f02d9, 0x8d2a4c8a,
     0xfffa3942, 0x8771f681, 0x6d9d6122, 0xfde5380c, 0xa4beea44, 0x4bdecfa9, 0xf6bb4b60, 0xbebfbc70,
     0x289b7ec6, 0xeaa127fa, 0xd4ef3085, 0x04881d05, 0xd9d4d039, 0xe6db99e5, 0x1fa27cf8, 0xc4ac5665,
     0xf4292244, 0x432aff97, 0xab9423a7, 0xfc93a039, 0x655b59c3, 0x8f0ccc92, 0xffeff47d, 0x85845dd1,
     0x6fa87e4f, 0xfe2ce6e0, 0xa3014314, 0x4e0811a1, 0xf7537e82, 0xbd3af235, 0x2ad7d2bb, 0xeb86d391]"

definition le_word32 :: "bytes \<Rightarrow> 32 word" where
  "le_word32 bs = foldr (\<lambda>b w. push_bit 8 w OR ucast b) bs 0"

definition le_bytes :: "nat \<Rightarrow> 'a::len word \<Rightarrow> bytes" where
  "le_bytes k w = map (\<lambda>i. ucast (drop_bit (8 * i) w)) [0..<k]"

definition md5_pad :: "bytes \<Rightarrow> bytes" where
  "md5_pad m =
    m @ [0x80] @ replicate ((55 + 64 - length m mod 64) mod 64) 0
      @ le_bytes 8 (8 * of_nat (length m) :: 64 word)"

fun chunks :: "nat \<Rightarrow> 'a list \<Rightarrow> 'a list list" where
  "chunks 0 xs = []"
| "chunks (Suc n) xs = take 64 xs # chunks n (drop 64 xs)"

definition md5_words :: "bytes \<Rightarrow> 32 word list" where
  "md5_words blk = map (\<lambda>i. le_word32 (take 4 (drop (4 * i) blk))) [0..<16]"

type_synonym md5_state = "32 word \<times> 32 word \<times> 32 word \<times> 32 word"

definition md5_round :: "32 word list \<Rightarrow> md5_state \<Rightarrow> nat \<Rightarrow> md5_state" where
  "md5_round M st i =
    (case st of (A, B, C, D) \<Rightarrow>
      let (F, g) =
            (if i < 16 then ((B AND C) OR (NOT B AND D), i)
             else if i < 32 then ((D AND B) OR (NOT D AND C), (5 * i + 1) mod 16)
             else if i < 48 then (B XOR C XOR D, (3 * i + 5) mod 16)
             else (C XOR (B OR NOT D), (7 * i) mod 16));
          F' = F + A + md5_sine ! i + M ! g
      in (D, B + word_rotl (md5_shift ! i) F', B, C))"

definition md5_block :: "md5_state \<Rightarrow> bytes \<Rightarrow> md5_state" where
  "md5_block st blk =
    (case st of (a0, b0, c0, d0) \<Rightarrow>
      case foldl (md5_round (md5_words blk)) st [0..<64] of (A, B, C, D) \<Rightarrow>
        (a0 + A, b0 + B, c0 + C, d0 + D))"

definition md5 :: "bytes \<Rightarrow> bytes" where
  "md5 m =
    (let p = md5_pad m
     in case foldl md5_block (0x67452301, 0xefcdab89, 0x98badcfe, 0x10325476)
               (chunks (length p div 64) p) of
        (a, b, c, d) \<Rightarrow> concat (map (le_bytes 4) [a, b, c, d]))"

text \<open>\<open>hexdigest()\<close>: two lower-case hexadecimal digits for each byte.\<close>

definition hex_digit :: "nat \<Rightarrow> nat" where
  "hex_digit n = (if n < 10 then 48 + n else 87 + n)"

definition hexdigest :: "bytes \<Rightarrow> pystr" where
  "hexdigest d = concat (map (\<lambda>b. [hex_digit (unat b div 16), hex_digit (unat b mod 16)]) d)"

text \<open>
  Line 369 of the source:
  \<open>table_name = f'Msg_{hashlib.md5(username.encode("utf-8")).hexdigest()}'\<close>.
  The encoding can raise.
\<close>

definition table_name_of :: "pystr \<Rightarrow> py_exn + pystr" where
  "table_name_of username =
    (case utf8_encode username of
       Inl e \<Rightarrow> Inl e
     | Inr b \<Rightarrow> Inr (lit ''Msg_'' @ hexdigest (md5 b)))"

text \<open>
  The shape that the comment of the source asks for: \<open>Msg_\<close> followed by 32 hexadecimal
  digits in lower case.
\<close>

definition is_hex_lower :: "nat \<Rightarrow> bool" where
  "is_hex_lower c = ((48 \<le> c \<and> c \<le> 57) \<or> (97 \<le> c \<and> c \<le> 102))"

definition table_shape :: "pystr \<Rightarrow> bool" where
  "table_shape s = (length s = 36 \<and> take 4 s = lit ''Msg_'' \<and> list_all is_hex_lower (drop 4 s))"

text \<open>
  \<open>re.match(r'^Msg_[a-f0-9]{32}$', table_name)\<close>. Without \<open>re.MULTILINE\<close>, \<open>^\<close> is
  the start of the string, and \<open>$\<close> is the end of the string or the position before a
  newline (code point 10) that ends the string.
\<close>

definition re_match_table :: "pystr \<Rightarrow> bool" where
  "re_match_table s = (table_shape s \<or> (s \<noteq> [] \<and> last s = 10 \<and> table_shape (butlast s)))"

section \<open>Message types\<close>

text \<open>\<open>class MessageType\<close>: the type codes.\<close>

definition TEXT :: int where "TEXT = 1"
definition IMAGE :: int where "IMAGE = 3"
definition VOICE :: int where "VOICE = 34"
definition CONTACT_CARD :: int where "CONTACT_CARD = 42"
definition VIDEO :: int where "VIDEO = 43"
definition EMOJI :: int where "EMOJI = 47"
definition LOCATION :: int where "LOCATION = 48"
definition LINK :: int where "LINK = 49"
definition VOIP :: int where "VOIP = 50"
definition SYSTEM :: int where "SYSTEM = 10000"
definition REVOKE :: int where "REVOKE = 10002"

text \<open>
  \<open>Message._get_type_name\<close>: the dictionary \<open>types\<close> of the method, as an association
  list in the order of the source, and \<open>types.get(self.msg_type, 'unknown')\<close>.
\<close>

definition type_names :: "(int \<times> pystr) list" where
  "type_names =
    [(TEXT, lit ''text''),
     (IMAGE, lit ''image''),
     (VOICE, lit ''voice''),
     (CONTACT_CARD, lit ''contact''),
     (VIDEO, lit ''video''),
     (EMOJI, lit ''emoji''),
     (LOCATION, lit ''location''),
     (LINK, lit ''link''),
     (SYSTEM, lit ''system''),
     (REVOKE, lit ''revoke'')]"

definition get_type_name :: "int \<Rightarrow> pystr" where
  "get_type_name msg_type =
    (case map_of type_names msg_type of Some n \<Rightarrow> n | None \<Rightarrow> lit ''unknown'')"

section \<open>Databases\<close>

text \<open>
  The values that \<open>sqlite3\<close> hands to Python for a column: \<open>None\<close>, \<open>int\<close>,
  \<open>float\<close> (its 64-bit pattern), \<open>str\<close> and \<open>bytes\<close>.
\<close>

datatype py_value = PyNone | PyInt int | PyFloat "64 word" | PyStr pystr | PyBytes bytes

text \<open>
  A row of a message table \<open>Msg_...\<close>. The columns that the source stores unguarded
  in a field of \<open>Message\<close> annotated \<open>int\<close> are integers; the columns that the source
  guards (\<open>server_id\<close>, \<open>message_content\<close>) or only joins on can be \<open>NULL\<close>.
\<close>

record msg_row =
  row_local_id :: int
  row_server_id :: "int option"
  row_local_type :: int
  row_real_sender_id :: "int option"
  row_create_time :: int
  row_message_content :: py_value

text \<open>A table of that name with other columns makes both queries fail.\<close>

datatype msg_table = MsgTable "msg_row list" | OtherLayout

text \<open>
  The table \<open>contact\<close> of the newer schema and the table \<open>Contact\<close> of the older one.
  SQLite compares table names without regard to case, so a database has at most one of
  them; the newer query fails on the older table for its missing columns
  (\<open>local_type\<close>, \<open>nick_name\<close>), and the older query on the newer table (\<open>NickName\<close>,
  \<open>Type\<close>). The columns \<open>flag\<close> and \<open>big_head_url\<close> are selected and never read.
  The user name goes unguarded into the field \<open>wxid\<close>, annotated \<open>str\<close>, and is a
  string; the columns that the source guards with \<open>or\<close>, or reads in \<open>WHERE\<close> only,
  can be \<open>NULL\<close>.
\<close>

record new_row =
  col_username :: pystr
  col_alias :: "pystr option"
  col_local_type :: "int option"
  col_remark :: "pystr option"
  col_nick_name :: "pystr option"
  col_small_head_url :: "pystr option"

record old_row =
  col_UserName :: pystr
  col_Alias :: "pystr option"
  col_NickName :: "pystr option"
  col_Type :: "int option"
  col_Remark :: "pystr option"

datatype contact_table = NoContactTable | NewSchema "new_row list" | OldSchema "old_row list"

text \<open>
  What a database file holds, as far as the queries of the source can see it. With
  \<open>fault = Some e\<close> every statement on the connection raises \<open>e\<close> (a file that is not
  a database, a locked database). \<open>name2id\<close> is the table \<open>Name2Id\<close>, from \<open>rowid\<close>
  to \<open>user_name\<close>, when the database has one.
\<close>

record sqlite_db =
  fault :: "py_exn option"
  contact_tbl :: contact_table
  msg_tables :: "(pystr \<times> msg_table) list"
  name2id :: "(int \<times> pystr) list option"

text \<open>
  What the Python process finds around it: the module \<open>zstandard\<close> with its
  \<open>ZstdDecompressor().decompress\<close> when it is installed, and the result of
  \<open>_get_my_wxid\<close> (the \<open>username\<close> of \<open>info.json\<close>, or the empty string).
\<close>

record py_env =
  zstandard :: "(bytes \<Rightarrow> py_exn + bytes) option"
  my_wxid :: pystr

section \<open>Messages\<close>

text \<open>The dataclass \<open>Message\<close>.\<close>

record message =
  local_id :: int
  server_id :: int
  msg_type :: int
  sender_username :: pystr
  create_time :: int
  content :: pystr
  is_sender :: bool
  talker :: pystr

text \<open>
  The rows that the two \<open>SELECT\<close> statements of \<open>get_messages\<close> return.
\<close>

record sel_row =
  sel_local_id :: int
  sel_server_id :: "int option"
  sel_local_type :: int
  sel_sender_username :: "pystr option"
  sel_create_time :: int
  sel_message_content :: py_value
  sel_is_sender :: int

text \<open>
  A Python int is bound to a statement only when it fits 64 bits; otherwise
  \<open>cursor.execute\<close> raises \<open>OverflowError\<close>. \<open>start_time\<close> is bound only when it is
  positive.
\<close>

definition sql_int_ok :: "int \<Rightarrow> bool" where
  "sql_int_ok n = (- (2 ^ 63) \<le> n \<and> n < 2 ^ 63)"

definition params_ok :: "int \<Rightarrow> int \<Rightarrow> int \<Rightarrow> bool" where
  "params_ok limit offset start_time =
    (sql_int_ok limit \<and> sql_int_ok offset \<and> (if start_time > 0 then sql_int_ok start_time else True))"

text \<open>
  \<open>LIMIT ? OFFSET ?\<close>: SQLite takes a negative limit as no limit and a negative offset
  as zero.
\<close>

definition window :: "int \<Rightarrow> int \<Rightarrow> 'a list \<Rightarrow> 'a list" where
  "window limit offset xs =
    (let ys = drop (nat offset) xs in if limit < 0 then ys else take (nat limit) ys)"

text \<open>
  \<open>[WHERE create_time >= ?] ORDER BY create_time DESC LIMIT ? OFFSET ?\<close>. SQLite does
  not fix the order of rows of equal \<open>create_time\<close>; the model keeps their stored order.
\<close>

definition select_rows :: "msg_row list \<Rightarrow> int \<Rightarrow> int \<Rightarrow> int \<Rightarrow> msg_row list" where
  "select_rows rows limit offset start_time =
    window limit offset
      (sort_key (\<lambda>r. - row_create_time r)
        (if start_time > 0 then filter (\<lambda>r. start_time \<le> row_create_time r) rows else rows))"

text \<open>The query with the join on \<open>Name2Id\<close>, and the query without it.\<close>

definition joined_row :: "(int \<times> pystr) list \<Rightarrow> pystr \<Rightarrow> msg_row \<Rightarrow> sel_row" where
  "joined_row n2i me r =
    (let sender = (case row_real_sender_id r of None \<Rightarrow> None | Some i \<Rightarrow> map_of n2i i)
     in \<lparr>sel_local_id = row_local_id r, sel_server_id = row_server_id r,
         sel_local_type = row_local_type r, sel_sender_username = sender,
         sel_create_time = row_create_time r, sel_message_content = row_message_content r,
         sel_is_sender = (if sender = Some me then 1 else 0)\<rparr>)"

definition plain_row :: "msg_row \<Rightarrow> sel_row" where
  "plain_row r =
    \<lparr>sel_local_id = row_local_id r, sel_server_id = row_server_id r,
     sel_local_type = row_local_type r, sel_sender_username = Some [],
     sel_create_time = row_create_time r, sel_message_content = row_message_content r,
     sel_is_sender = 0\<rparr>"

definition joined_query ::
  "py_env \<Rightarrow> sqlite_db \<Rightarrow> msg_table \<Rightarrow> int \<Rightarrow> int \<Rightarrow> int \<Rightarrow> py_exn + sel_row list" where
  "joined_query env db t limit offset start_time =
    (case t of
       OtherLayout \<Rightarrow> Inl OperationalError
     | MsgTable rows \<Rightarrow>
         (case name2id db of
            None \<Rightarrow> Inl OperationalError
          | Some n2i \<Rightarrow>
              if params_ok limit offset start_time
              then Inr (map (joined_row n2i (my_wxid env)) (select_rows rows limit offset start_time))
              else Inl OverflowError))"

definition plain_query :: "msg_table \<Rightarrow> int \<Rightarrow> int \<Rightarrow> int \<Rightarrow> py_exn + sel_row list" where
  "plain_query t limit offset start_time =
    (case t of
       OtherLayout \<Rightarrow> Inl OperationalError
     | MsgTable rows \<Rightarrow>
         if params_ok limit offset start_time
         then Inr (map plain_row (select_rows rows limit offset start_time))
         else Inl OverflowError)"

text \<open>
  Lines 435 to 443: the body of the inner \<open>try\<close> (import, decompress, decode), and the
  step on one payload. The handler \<open>except (ImportError, Exception)\<close> catches every
  exception of the model. Line 451 keeps a \<open>str\<close> and replaces anything else by \<open>''\<close>.
\<close>

definition zstd_decode :: "py_env \<Rightarrow> bytes \<Rightarrow> py_exn + pystr" where
  "zstd_decode env b =
    (case zstandard env of
       None \<Rightarrow> Inl ImportError
     | Some decompress \<Rightarrow>
         (case decompress b of Inl e \<Rightarrow> Inl e | Inr raw \<Rightarrow> utf8_decode raw))"

definition decode_content :: "py_env \<Rightarrow> py_value \<Rightarrow> py_exn + py_value" where
  "decode_content env v =
    (case v of
       PyBytes b \<Rightarrow>
         (case zstd_decode env b of
            Inr s \<Rightarrow> Inr (PyStr s)
          | Inl e \<Rightarrow> Inr (PyStr (if b \<noteq> [] then utf8_decode_ignore b else [])))
     | _ \<Rightarrow> Inr v)"

definition content_str :: "py_value \<Rightarrow> pystr" where
  "content_str v = (case v of PyStr s \<Rightarrow> s | _ \<Rightarrow> [])"

definition make_message :: "py_env \<Rightarrow> pystr \<Rightarrow> sel_row \<Rightarrow> py_exn + message" where
  "make_message env username row =
    (case decode_content env (sel_message_content row) of
       Inl e \<Rightarrow> Inl e
     | Inr c \<Rightarrow>
         Inr \<lparr>local_id = sel_local_id row,
              server_id = (case sel_server_id row of None \<Rightarrow> 0 | Some n \<Rightarrow> if n \<noteq> 0 then n else 0),
              msg_type = sel_local_type row,
              sender_username = por (sel_sender_username row) [],
              create_time = sel_create_time row,
              content = content_str c,
              is_sender = (sel_is_sender row \<noteq> 0),
              talker = username\<rparr>)"

text \<open>
  The loop over the rows appends to \<open>all_messages\<close>; an exception leaves the messages
  appended so far in the list.
\<close>

fun append_rows ::
  "py_env \<Rightarrow> pystr \<Rightarrow> sel_row list \<Rightarrow> message list \<Rightarrow> py_exn option \<times> message list" where
  "append_rows env username [] acc = (None, acc)"
| "append_rows env username (row # rows) acc =
    (case make_message env username row of
       Inl e \<Rightarrow> (Some e, acc)
     | Inr m \<Rightarrow> append_rows env username rows (acc @ [m]))"

text \<open>
  The body of the \<open>try\<close> for one shard: the probe for the table in \<open>sqlite_master\<close>
  (\<open>continue\<close> without it), the query with the join, the query without it after an
  \<open>OperationalError\<close>, and the loop over the rows.
\<close>

definition read_shard ::
  "py_env \<Rightarrow> sqlite_db \<Rightarrow> pystr \<Rightarrow> pystr \<Rightarrow> int \<Rightarrow> int \<Rightarrow> int \<Rightarrow> message list
    \<Rightarrow> py_exn option \<times> message list" where
  "read_shard env db table_name username limit offset start_time acc =
    (case fault db of
       Some e \<Rightarrow> (Some e, acc)
     | None \<Rightarrow>
         (case map_of (msg_tables db) table_name of
            None \<Rightarrow> (None, acc)
          | Some t \<Rightarrow>
              (case (case joined_query env db t limit offset start_time of
                       Inl e \<Rightarrow> if e = OperationalError
                                then plain_query t limit offset start_time else Inl e
                     | Inr rows \<Rightarrow> Inr rows) of
                 Inl e \<Rightarrow> (Some e, acc)
               | Inr rows \<Rightarrow> append_rows env username rows acc)))"

text \<open>
  What one shard adds to \<open>all_messages\<close>, and whether a shard has the table.
\<close>

definition shard_messages ::
  "py_env \<Rightarrow> sqlite_db \<Rightarrow> pystr \<Rightarrow> pystr \<Rightarrow> int \<Rightarrow> int \<Rightarrow> int \<Rightarrow> message list" where
  "shard_messages env db table_name username limit offset start_time =
    snd (read_shard env db table_name username limit offset start_time [])"

definition shard_error ::
  "py_env \<Rightarrow> sqlite_db \<Rightarrow> pystr \<Rightarrow> pystr \<Rightarrow> int \<Rightarrow> int \<Rightarrow> int \<Rightarrow> py_exn option" where
  "shard_error env db table_name username limit offset start_time =
    fst (read_shard env db table_name username limit offset start_time [])"

definition has_table :: "sqlite_db \<Rightarrow> pystr \<Rightarrow> bool" where
  "has_table db table_name = (map_of (msg_tables db) table_name \<noteq> None)"

text \<open>What the source prints on \<open>sys.stderr\<close>; a shard is named by its index.\<close>

datatype log_entry =
    ErrorInitializing py_exn
  | ErrorGettingContacts py_exn
  | ErrorGettingGroups py_exn
  | InvalidTableName pystr
  | ErrorGettingMessages nat py_exn

text \<open>The loop \<open>for db in self.message_dbs\<close>, with its handler.\<close>

fun scan_shards ::
  "py_env \<Rightarrow> pystr \<Rightarrow> pystr \<Rightarrow> int \<Rightarrow> int \<Rightarrow> int \<Rightarrow> nat \<Rightarrow> sqlite_db list
    \<Rightarrow> message list \<times> log_entry list \<Rightarrow> message list \<times> log_entry list" where
  "scan_shards env table_name username limit offset start_time i [] st = st"
| "scan_shards env table_name username limit offset start_time i (db # dbs) (acc, lg) =
    (case read_shard env db table_name username limit offset start_time acc of
       (Some e, acc') \<Rightarrow>
         scan_shards env table_name username limit offset start_time (Suc i) dbs
           (acc', lg @ [ErrorGettingMessages i e])
     | (None, acc') \<Rightarrow>
         scan_shards env table_name username limit offset start_time (Suc i) dbs (acc', lg))"

text \<open>The warnings that the loop prints, one for each shard that raises.\<close>

fun shard_errors ::
  "py_env \<Rightarrow> pystr \<Rightarrow> pystr \<Rightarrow> int \<Rightarrow> int \<Rightarrow> int \<Rightarrow> nat \<Rightarrow> sqlite_db list
    \<Rightarrow> log_entry list" where
  "shard_errors env tn u lim off st i [] = []"
| "shard_errors env tn u lim off st i (db # dbs) =
    (case shard_error env db tn u lim off st of
       Some e \<Rightarrow> [ErrorGettingMessages i e]
     | None \<Rightarrow> [])
    @ shard_errors env tn u lim off st (Suc i) dbs"

record msg_result =
  messages :: "message list"
  total_count :: nat
  err_log :: "log_entry list"

text \<open>
  \<open>get_messages\<close> from line 371 on, for a table name; and \<open>get_messages\<close>. The
  dictionary \<open>contact_map\<close> of line 365 is built and never read. \<open>list.sort\<close> is stable.
\<close>

definition get_messages_in ::
  "py_env \<Rightarrow> sqlite_db list \<Rightarrow> pystr \<Rightarrow> pystr \<Rightarrow> int \<Rightarrow> int \<Rightarrow> int \<Rightarrow> msg_result" where
  "get_messages_in env dbs table_name username limit offset start_time =
    (if \<not> re_match_table table_name
     then \<lparr>messages = [], total_count = 0, err_log = [InvalidTableName table_name]\<rparr>
     else case scan_shards env table_name username limit offset start_time 0 dbs ([], []) of
       (all_messages, lg) \<Rightarrow>
         \<lparr>messages = sort_key create_time all_messages,
          total_count = length (sort_key create_time all_messages),
          err_log = lg\<rparr>)"

definition get_messages ::
  "py_env \<Rightarrow> sqlite_db list \<Rightarrow> pystr \<Rightarrow> int \<Rightarrow> int \<Rightarrow> int \<Rightarrow> py_exn + msg_result" where
  "get_messages env dbs username limit offset start_time =
    (if dbs = [] then Inr \<lparr>messages = [], total_count = 0, err_log = []\<rparr>
     else case table_name_of username of
       Inl e \<Rightarrow> Inl e
     | Inr table_name \<Rightarrow>
         Inr (get_messages_in env dbs table_name username limit offset start_time))"

section \<open>Contacts\<close>

text \<open>
  The dataclass \<open>Contact\<close>; its fields \<open>alias\<close> and \<open>type\<close> are \<open>c_alias\<close> and
  \<open>ctype\<close> here.
\<close>

record contact =
  wxid :: pystr
  nickname :: pystr
  remark :: pystr
  c_alias :: pystr
  small_head_img_url :: pystr
  ctype :: pystr
  is_chatroom :: bool
  member_count :: int

text \<open>\<open>Contact.to_dict\<close>.\<close>

record contact_dict =
  dict_id :: pystr
  dict_name :: pystr
  dict_alias :: pystr
  dict_avatar :: "pystr option"
  dict_type :: pystr
  dict_memberCount :: int

definition to_dict :: "contact \<Rightarrow> contact_dict" where
  "to_dict c =
    \<lparr>dict_id = wxid c,
     dict_name = (if remark c \<noteq> [] then remark c
                  else if nickname c \<noteq> [] then nickname c else wxid c),
     dict_alias = c_alias c,
     dict_avatar = (if small_head_img_url c \<noteq> [] then Some (small_head_img_url c) else None),
     dict_type = (if is_chatroom c then lit ''group'' else lit ''friend''),
     dict_memberCount = member_count c\<rparr>"

text \<open>
  \<open>LIKE\<close> of SQLite ignores the case of ASCII letters; \<open>%\<close> stands for any string and
  \<open>_\<close> for any one character. Hence \<open>LIKE '%@chatroom'\<close> and \<open>LIKE 'gh_%'\<close>.
\<close>

definition ascii_lower :: "nat \<Rightarrow> nat" where
  "ascii_lower c = (if 65 \<le> c \<and> c \<le> 90 then c + 32 else c)"

definition like_chatroom :: "pystr \<Rightarrow> bool" where
  "like_chatroom s = (9 \<le> length s \<and> map ascii_lower (drop (length s - 9) s) = lit ''@chatroom'')"

definition like_gh :: "pystr \<Rightarrow> bool" where
  "like_gh s = (3 \<le> length s \<and> map ascii_lower (take 2 s) = lit ''gh'')"

text \<open>
  The four \<open>SELECT\<close> statements on the contact database. \<open>ORDER BY\<close> puts \<open>NULL\<close>
  first and compares text by code points. A comparison with \<open>NULL\<close> in \<open>WHERE\<close> drops
  the row.
\<close>

datatype sql_stmt =
    SelectContactsNew | SelectContactsOld | SelectGroupsNew | SelectGroupsOld
  | SelectExtBuffer pystr

definition query_contacts_new :: "sqlite_db \<Rightarrow> py_exn + new_row list" where
  "query_contacts_new db =
    (case fault db of
       Some e \<Rightarrow> Inl e
     | None \<Rightarrow>
         (case contact_tbl db of
            NewSchema rows \<Rightarrow>
              Inr (sort_key col_nick_name
                    (filter (\<lambda>r. col_local_type r = Some 1 \<or> col_local_type r = Some 2
                                  \<or> col_local_type r = Some 5) rows))
          | _ \<Rightarrow> Inl OperationalError))"

definition query_contacts_old :: "sqlite_db \<Rightarrow> py_exn + old_row list" where
  "query_contacts_old db =
    (case fault db of
       Some e \<Rightarrow> Inl e
     | None \<Rightarrow>
         (case contact_tbl db of
            OldSchema rows \<Rightarrow>
              Inr (sort_key col_NickName
                    (filter (\<lambda>r. (case col_Type r of None \<Rightarrow> False | Some t \<Rightarrow> t \<noteq> 4)
                                  \<and> \<not> like_gh (col_UserName r)
                                  \<and> col_UserName r \<noteq> lit ''filehelper''
                                  \<and> col_UserName r \<noteq> lit ''floatbottle''
                                  \<and> col_UserName r \<noteq> lit ''medianote''
                                  \<and> col_UserName r \<noteq> lit ''fmessage'') rows))
          | _ \<Rightarrow> Inl OperationalError))"

definition query_groups_new :: "sqlite_db \<Rightarrow> py_exn + new_row list" where
  "query_groups_new db =
    (case fault db of
       Some e \<Rightarrow> Inl e
     | None \<Rightarrow>
         (case contact_tbl db of
            NewSchema rows \<Rightarrow>
              Inr (sort_key col_nick_name (filter (\<lambda>r. like_chatroom (col_username r)) rows))
          | _ \<Rightarrow> Inl OperationalError))"


text \<open>The \<open>Contact(...)\<close> that each loop builds from a row.\<close>

definition contact_of_new :: "new_row \<Rightarrow> contact" where
  "contact_of_new row =
    (let w = col_username row
     in \<lparr>wxid = w, nickname = por (col_nick_name row) w,
         remark = por (col_remark row) (por (col_nick_name row) w),
         c_alias = por (col_alias row) [],
         small_head_img_url = por (col_small_head_url row) [],
         ctype = lit ''friend'', is_chatroom = endswith w (lit ''@chatroom''),
         member_count = 0\<rparr>)"

definition contact_of_old :: "old_row \<Rightarrow> contact" where
  "contact_of_old row =
    (let w = col_UserName row
     in \<lparr>wxid = w, nickname = por (col_NickName row) w,
         remark = por (col_Remark row) (por (col_NickName row) w),
         c_alias = por (col_Alias row) [],
         small_head_img_url = [],
         ctype = lit ''friend'', is_chatroom = endswith w (lit ''@chatroom''),
         member_count = 0\<rparr>)"




section \<open>The reader\<close>

text \<open>
  The object \<open>WeChatDatabaseV4\<close>. A connection is the database that it reads. The
  dictionary \<open>contacts_map\<close> is an association list in insertion order. Two fields
  record what the methods do besides returning: the lines printed on \<open>sys.stderr\<close> and
  the statements given to \<open>cursor.execute\<close> on the contact database.
\<close>

record reader =
  db_dir :: pystr
  contact_db :: "sqlite_db option"
  session_db :: "sqlite_db option"
  message_dbs :: "sqlite_db list"
  contacts_map :: "(pystr \<times> contact) list"
  initialized :: bool
  err_out :: "log_entry list"
  executed :: "sql_stmt list"

definition new_reader :: "pystr \<Rightarrow> reader" where
  "new_reader d =
    \<lparr>db_dir = d, contact_db = None, session_db = None, message_dbs = [],
     contacts_map = [], initialized = False, err_out = [], executed = []\<rparr>"

definition register :: "contact list \<Rightarrow> reader \<Rightarrow> reader" where
  "register cs r =
    r\<lparr>contacts_map := foldl (\<lambda>m c. AList.update (wxid c) c m) (contacts_map r) cs\<rparr>"

definition run_stmt :: "sql_stmt \<Rightarrow> reader \<Rightarrow> reader" where
  "run_stmt q r = r\<lparr>executed := executed r @ [q]\<rparr>"

definition log_err :: "log_entry \<Rightarrow> reader \<Rightarrow> reader" where
  "log_err l r = r\<lparr>err_out := err_out r @ [l]\<rparr>"

text \<open>
  \<open>get_contacts\<close>: the inner \<open>try\<close> with the newer query, the handler of
  \<open>sqlite3.OperationalError\<close> with the older query, and the outer handler that prints.
\<close>

definition get_contacts :: "reader \<Rightarrow> contact list \<times> reader" where
  "get_contacts r =
    (case contact_db r of
       None \<Rightarrow> ([], r)
     | Some db \<Rightarrow>
         (case query_contacts_new db of
            Inr rows \<Rightarrow>
              (map contact_of_new rows,
               register (map contact_of_new rows) (run_stmt SelectContactsNew r))
          | Inl e \<Rightarrow>
              if e = OperationalError then
                (case query_contacts_old db of
                   Inr rows \<Rightarrow>
                     (map contact_of_old rows,
                      register (map contact_of_old rows)
                        (run_stmt SelectContactsOld (run_stmt SelectContactsNew r)))
                 | Inl e' \<Rightarrow>
                     ([], log_err (ErrorGettingContacts e')
                            (run_stmt SelectContactsOld (run_stmt SelectContactsNew r))))
              else ([], log_err (ErrorGettingContacts e) (run_stmt SelectContactsNew r))))"


section \<open>The file system and \<open>init_database\<close>\<close>

text \<open>
  A path names a regular file that \<open>sqlite3\<close> can open (with the database that it
  holds), a file or directory entry that it cannot open for lack of permission, or a
  directory with the names in it. \<open>os.path.exists\<close> holds for all three.
\<close>

datatype fs_node = RegularFile sqlite_db | Unopenable | Directory "pystr list"

type_synonym filesystem = "pystr \<Rightarrow> fs_node option"

definition path_exists :: "filesystem \<Rightarrow> pystr \<Rightarrow> bool" where
  "path_exists fs p = (fs p \<noteq> None)"

definition empty_db :: sqlite_db where
  "empty_db = \<lparr>fault = None, contact_tbl = NoContactTable, msg_tables = [], name2id = None\<rparr>"

text \<open>
  \<open>sqlite3.connect\<close> raises \<open>OperationalError\<close> (unable to open database file) for a
  directory and for a file without permission; for a path that does not exist it makes
  an empty database. A file that is not a database opens, and fails at the first
  statement.
\<close>

definition connect :: "filesystem \<Rightarrow> pystr \<Rightarrow> py_exn + sqlite_db" where
  "connect fs p =
    (case fs p of
       Some (RegularFile db) \<Rightarrow> Inr db
     | Some Unopenable \<Rightarrow> Inl OperationalError
     | Some (Directory names) \<Rightarrow> Inl OperationalError
     | None \<Rightarrow> Inr empty_db)"

definition listdir :: "filesystem \<Rightarrow> pystr \<Rightarrow> py_exn + pystr list" where
  "listdir fs p =
    (case fs p of
       Some (Directory names) \<Rightarrow> Inr names
     | Some (RegularFile db) \<Rightarrow> Inl NotADirectoryError
     | Some Unopenable \<Rightarrow> Inl PermissionError
     | None \<Rightarrow> Inl FileNotFoundError)"

text \<open>The paths of the contact store and of the session store, in the order of the source.\<close>

definition contact_paths :: "pystr \<Rightarrow> pystr list" where
  "contact_paths d =
    [path_join d [lit ''contact'', lit ''contact.db''],
     path_join d [lit ''contact.db''],
     path_join d [lit ''MicroMsg.db''],
     path_join d [lit ''Msg'', lit ''MicroMsg.db'']]"

definition session_paths :: "pystr \<Rightarrow> pystr list" where
  "session_paths d =
    [path_join d [lit ''session'', lit ''session.db''],
     path_join d [lit ''session.db'']]"

definition connect_contact :: "filesystem \<Rightarrow> pystr \<Rightarrow> reader \<Rightarrow> py_exn option \<times> reader" where
  "connect_contact fs p r =
    (case connect fs p of Inl e \<Rightarrow> (Some e, r) | Inr db \<Rightarrow> (None, r\<lparr>contact_db := Some db\<rparr>))"

definition connect_session :: "filesystem \<Rightarrow> pystr \<Rightarrow> reader \<Rightarrow> py_exn option \<times> reader" where
  "connect_session fs p r =
    (case connect fs p of Inl e \<Rightarrow> (Some e, r) | Inr db \<Rightarrow> (None, r\<lparr>session_db := Some db\<rparr>))"

definition connect_message :: "filesystem \<Rightarrow> pystr \<Rightarrow> reader \<Rightarrow> py_exn option \<times> reader" where
  "connect_message fs p r =
    (case connect fs p of
       Inl e \<Rightarrow> (Some e, r)
     | Inr db \<Rightarrow> (None, r\<lparr>message_dbs := message_dbs r @ [db]\<rparr>))"

text \<open>Lines 119 to 140: the contact store.\<close>

definition open_contact :: "filesystem \<Rightarrow> reader \<Rightarrow> py_exn option \<times> reader" where
  "open_contact fs r =
    (let contact_db_path = path_join (db_dir r) [lit ''contact'', lit ''contact.db''];
         flat_contact_db_path = path_join (db_dir r) [lit ''contact.db''];
         micromsg_path = path_join (db_dir r) [lit ''MicroMsg.db''];
         msg_micromsg_path = path_join (db_dir r) [lit ''Msg'', lit ''MicroMsg.db'']
     in if path_exists fs contact_db_path then connect_contact fs contact_db_path r
        else if path_exists fs flat_contact_db_path then connect_contact fs flat_contact_db_path r
        else if path_exists fs micromsg_path then connect_contact fs micromsg_path r
        else if path_exists fs msg_micromsg_path then connect_contact fs msg_micromsg_path r
        else (None, r))"

text \<open>Lines 143 to 151: the session store.\<close>

definition open_session :: "filesystem \<Rightarrow> reader \<Rightarrow> py_exn option \<times> reader" where
  "open_session fs r =
    (let session_db_path = path_join (db_dir r) [lit ''session'', lit ''session.db''];
         flat_session_db_path = path_join (db_dir r) [lit ''session.db'']
     in if path_exists fs session_db_path then connect_session fs session_db_path r
        else if path_exists fs flat_session_db_path then connect_session fs flat_session_db_path r
        else (None, r))"

text \<open>
  The loops \<open>for i in range(100)\<close> over \<open>message_{i}.db\<close>, which stop at the first
  missing file, and the loop over \<open>os.listdir\<close> of the folder \<open>Msg\<close>.
\<close>

definition message_file :: "nat \<Rightarrow> pystr" where
  "message_file i = lit ''message_'' @ str_of_nat i @ lit ''.db''"

fun scan_numbered :: "filesystem \<Rightarrow> pystr \<Rightarrow> nat list \<Rightarrow> reader \<Rightarrow> py_exn option \<times> reader" where
  "scan_numbered fs dir [] r = (None, r)"
| "scan_numbered fs dir (i # is) r =
    (let msg_db_path = path_join dir [message_file i]
     in if path_exists fs msg_db_path then
          (case connect_message fs msg_db_path r of
             (Some e, r') \<Rightarrow> (Some e, r')
           | (None, r') \<Rightarrow> scan_numbered fs dir is r')
        else (None, r))"

fun scan_named :: "filesystem \<Rightarrow> pystr \<Rightarrow> pystr list \<Rightarrow> reader \<Rightarrow> py_exn option \<times> reader" where
  "scan_named fs msg_folder [] r = (None, r)"
| "scan_named fs msg_folder (filename # rest) r =
    (if startswith filename (lit ''MSG'') \<and> endswith filename (lit ''.db'') then
       (case connect_message fs (path_join msg_folder [filename]) r of
          (Some e, r') \<Rightarrow> (Some e, r')
        | (None, r') \<Rightarrow> scan_named fs msg_folder rest r')
     else scan_named fs msg_folder rest r)"

text \<open>Lines 154 to 187: the message databases.\<close>

definition open_messages :: "filesystem \<Rightarrow> reader \<Rightarrow> py_exn option \<times> reader" where
  "open_messages fs r =
    (let message_dir = path_join (db_dir r) [lit ''message'']
     in if path_exists fs (path_join (db_dir r) [lit ''message_0.db''])
        then scan_numbered fs (db_dir r) [0..<100] r
        else if path_exists fs message_dir
        then scan_numbered fs message_dir [0..<100] r
        else (let msg_folder = path_join (db_dir r) [lit ''Msg'']
              in if path_exists fs msg_folder then
                   (case listdir fs msg_folder of
                      Inl e \<Rightarrow> (Some e, r)
                    | Inr names \<Rightarrow> scan_named fs msg_folder names r)
                 else (None, r)))"

text \<open>
  \<open>init_database\<close>: the body of the \<open>try\<close>, and the handler that prints and returns
  \<open>False\<close>. What the body has stored in the object before an exception stays there.
\<close>

definition init_body :: "filesystem \<Rightarrow> reader \<Rightarrow> py_exn option \<times> reader" where
  "init_body fs r =
    (case open_contact fs r of
       (Some e, r1) \<Rightarrow> (Some e, r1)
     | (None, r1) \<Rightarrow>
         (case open_session fs r1 of
            (Some e, r2) \<Rightarrow> (Some e, r2)
          | (None, r2) \<Rightarrow> open_messages fs r2))"

definition init_database :: "filesystem \<Rightarrow> reader \<Rightarrow> bool \<times> reader" where
  "init_database fs r =
    (case init_body fs r of
       (Some e, r') \<Rightarrow> (False, log_err (ErrorInitializing e) r')
     | (None, r') \<Rightarrow> (contact_db r' \<noteq> None, r'\<lparr>initialized := (contact_db r' \<noteq> None)\<rparr>))"

text \<open>
  Two conditions on a storage root. No shard is located: there is no \<open>message_0.db\<close>
  in the root, and either the folder \<open>message\<close> exists without a \<open>message_0.db\<close>,
  or it does not exist and the folder \<open>Msg\<close> is absent or is a directory without a
  file \<open>MSG*.db\<close>. The session store opens: the first session path that exists, if
  any, is a file that \<open>sqlite3\<close> can open.
\<close>

definition no_shard_located :: "filesystem \<Rightarrow> pystr \<Rightarrow> bool" where
  "no_shard_located fs d =
    (\<not> path_exists fs (path_join d [lit ''message_0.db''])
     \<and> (if path_exists fs (path_join d [lit ''message''])
          then \<not> path_exists fs (path_join (path_join d [lit ''message'']) [lit ''message_0.db''])
          else (case fs (path_join d [lit ''Msg'']) of
                  None \<Rightarrow> True
                | Some (Directory names) \<Rightarrow>
                    list_all (\<lambda>n. \<not> (startswith n (lit ''MSG'') \<and> endswith n (lit ''.db''))) names
                | Some (RegularFile db) \<Rightarrow> False
                | Some Unopenable \<Rightarrow> False)))"


text \<open>\<open>get_status\<close>.\<close>

record status =
  st_initialized :: bool
  hasContactDb :: bool
  hasSessionDb :: bool
  messageDbCount :: nat
  contactCount :: nat
  dbVersion :: nat

definition get_status :: "reader \<Rightarrow> status" where
  "get_status r =
    \<lparr>st_initialized = initialized r,
     hasContactDb = (contact_db r \<noteq> None),
     hasSessionDb = (session_db r \<noteq> None),
     messageDbCount = length (message_dbs r),
     contactCount = length (contacts_map r),
     dbVersion = 4\<rparr>"

section \<open>The commands of \<open>main\<close>\<close>

text \<open>
  The command \<open>status\<close> builds a reader, calls \<open>init_database\<close> and prints
  \<open>get_status\<close>. The command \<open>contacts\<close> prints the contacts that are not chat rooms,
  or the empty list when \<open>init_database\<close> returns \<open>False\<close>.
\<close>

definition cmd_status :: "filesystem \<Rightarrow> pystr \<Rightarrow> status" where
  "cmd_status fs d = get_status (snd (init_database fs (new_reader d)))"

definition cmd_contacts :: "filesystem \<Rightarrow> pystr \<Rightarrow> contact_dict list" where
  "cmd_contacts fs d =
    (case init_database fs (new_reader d) of
       (True, r) \<Rightarrow> map to_dict (filter (\<lambda>c. \<not> is_chatroom c) (fst (get_contacts r)))
     | (False, r) \<Rightarrow> [])"

section \<open>Sample data\<close>

text \<open>
  A process without \<open>zstandard\<close>; two shards that hold the table of \<open>alice\<close>, the
  first with \<open>Name2Id\<close> and a payload of bytes that are not UTF-8, the second without
  \<open>Name2Id\<close>; a file that is not a database; a name that ends in a newline.
\<close>

definition sample_env :: py_env where
  "sample_env = \<lparr>zstandard = None, my_wxid = lit ''me''\<rparr>"

definition sample_row :: "int \<Rightarrow> int \<Rightarrow> py_value \<Rightarrow> msg_row" where
  "sample_row i t c =
    \<lparr>row_local_id = i, row_server_id = None, row_local_type = 1, row_real_sender_id = Some 1,
     row_create_time = t, row_message_content = c\<rparr>"

definition alice_table :: pystr where
  "alice_table = lit ''Msg_6384e2b2184bcbf58eccf10ca7a6563c''"

definition sample_shard_a :: sqlite_db where
  "sample_shard_a =
    \<lparr>fault = None, contact_tbl = NoContactTable,
     msg_tables = [(alice_table, MsgTable [sample_row 1 100 (PyStr (lit ''hi'')),
                                           sample_row 2 50 (PyBytes [0xFF, 0x6F, 0x6B])])],
     name2id = Some [(1, lit ''alice'')]\<rparr>"

definition sample_shard_b :: sqlite_db where
  "sample_shard_b =
    \<lparr>fault = None, contact_tbl = NoContactTable,
     msg_tables = [(alice_table, MsgTable [sample_row 1 75 PyNone, sample_row 2 120 (PyInt 7)])],
     name2id = None\<rparr>"


definition garbage_row :: sel_row where
  "garbage_row = plain_row (sample_row 2 50 (PyBytes [0xFF, 0x6F, 0x6B]))"


definition contact_row :: "string \<Rightarrow> int \<Rightarrow> string \<Rightarrow> new_row" where
  "contact_row u t n =
    \<lparr>col_username = lit u, col_alias = None, col_local_type = Some t, col_remark = None,
     col_nick_name = Some (lit n), col_small_head_url = None\<rparr>"


text \<open>
  A contact database of the newer schema with a friend, a chat room and a stranger; one
  of the older schema with a friend, an official account and a chat room.
\<close>

definition new_contacts_db :: sqlite_db where
  "new_contacts_db =
    empty_db\<lparr>contact_tbl :=
      NewSchema [contact_row ''team@chatroom'' 2 ''Team'', contact_row ''alice'' 1 ''Alice'',
                 contact_row ''eve'' 3 ''Eve'']\<rparr>"


text \<open>
  Four storage roots under \<open>/data\<close>: a complete one; one with a shard and no contact
  store; one whose session store cannot be opened; one with the older contact store
  only.
\<close>

definition sample_fs :: filesystem where
  "sample_fs =
    map_of [(lit ''/data/contact/contact.db'', RegularFile new_contacts_db),
            (lit ''/data/message_0.db'', RegularFile sample_shard_a),
            (lit ''/data/message_1.db'', RegularFile sample_shard_b)]"

definition fs_only_shard :: filesystem where
  "fs_only_shard = map_of [(lit ''/data/message_0.db'', RegularFile sample_shard_a)]"



section \<open>Properties of the type names\<close>

lemmas MessageType_defs =
  TEXT_def IMAGE_def VOICE_def CONTACT_CARD_def VIDEO_def EMOJI_def LOCATION_def
  LINK_def VOIP_def SYSTEM_def REVOKE_def

lemma get_type_name_listed:
  "get_type_name 1 = lit ''text''"
  "get_type_name 3 = lit ''image''"
  "get_type_name 34 = lit ''voice''"
  "get_type_name 42 = lit ''contact''"
  "get_type_name 43 = lit ''video''"
  "get_type_name 47 = lit ''emoji''"
  "get_type_name 48 = lit ''location''"
  "get_type_name 49 = lit ''link''"
  "get_type_name 10000 = lit ''system''"
  "get_type_name 10002 = lit ''revoke''"
  by (simp_all add: get_type_name_def type_names_def MessageType_defs)

lemma get_type_name_other:
  "t \<notin> {1, 3, 34, 42, 43, 47, 48, 49, 10000, 10002} \<Longrightarrow> get_type_name t = lit ''unknown''"
  by (simp add: get_type_name_def type_names_def MessageType_defs)

text \<open>
  C7. The claim lists eleven codes, with type code 50 rendered as \<open>voip\<close>. The class
  \<open>MessageType\<close> declares \<open>VOIP = 50\<close>, but the dictionary of \<open>_get_type_name\<close> has no
  entry for it: a message of type 50 is rendered as \<open>unknown\<close>, and not as \<open>voip\<close>.
\<close>

theorem get_type_name_voip_unknown:
  "get_type_name VOIP = lit ''unknown'' \<and> get_type_name VOIP \<noteq> lit ''voip''"
  by (simp add: get_type_name_def type_names_def MessageType_defs lit_def)

section \<open>Properties of the content decoder\<close>

text \<open>
  A step of the decoder on a non-empty input covers at least one byte, and on bytes that
  are valid UTF-8 the decoder that ignores errors drops nothing.
\<close>

lemma decode_step_pos: "decode_step (b # bs) = Decoded c k \<Longrightarrow> 0 < k"
  by (auto split: if_splits list.splits)

lemma decode_ignore_valid: "decode_strict bs = Inr s \<Longrightarrow> decode_ignore bs = s"
proof (induction bs arbitrary: s rule: decode_strict.induct)
  case 1
  then show ?case by simp
next
  case (2 b bs)
  show ?case
  proof (cases "decode_step (b # bs)")
    case (Invalid k)
    with "2.prems" show ?thesis by simp
  next
    case (Decoded c k)
    with "2.prems" obtain s' where s': "decode_strict (drop (k - 1) bs) = Inr s'" "s = c # s'"
      by (auto split: sum.splits)
    from "2.IH" [OF Decoded s'(1)] Decoded s'(2) show ?thesis by simp
  qed
qed

lemma utf8_decode_ignore_valid: "utf8_decode b = Inr s \<Longrightarrow> utf8_decode_ignore b = s"
  by (simp add: utf8_decode_def utf8_decode_ignore_def decode_ignore_valid)

text \<open>
  The step on one row never raises: \<open>make_message\<close> always returns a message.
\<close>

lemma decode_content_Inr: "\<exists>c. decode_content env v = Inr c"
  by (cases v) (auto simp: decode_content_def split: sum.splits)

lemma make_message_Inr: "make_message env u row = Inr (projr (make_message env u row))"
proof -
  obtain c where "decode_content env (sel_message_content row) = Inr c"
    using decode_content_Inr by blast
  then show ?thesis by (simp add: make_message_def)
qed

lemma create_time_make_message:
  "create_time (projr (make_message env u row)) = sel_create_time row"
proof -
  obtain c where "decode_content env (sel_message_content row) = Inr c"
    using decode_content_Inr by blast
  then show ?thesis by (simp add: make_message_def)
qed

lemma content_make_message:
  "content (projr (make_message env u row)) =
    (case sel_message_content row of
       PyBytes b \<Rightarrow>
         (case zstd_decode env b of
            Inr s \<Rightarrow> s
          | Inl e \<Rightarrow> if b = [] then [] else utf8_decode_ignore b)
     | PyStr s \<Rightarrow> s
     | _ \<Rightarrow> [])"
  by (simp add: make_message_def decode_content_def content_str_def
      split: py_value.splits sum.splits)

text \<open>
  C3. The content of a message is a string for every payload, and the step on a row
  never raises. For a payload of bytes, when \<open>zstandard\<close> is missing, or the
  decompression fails, or the decompressed bytes are not UTF-8, the content is the
  payload decoded as UTF-8 with the invalid bytes dropped (the empty string for the empty
  payload); when all three succeed it is the decompressed text. A \<open>str\<close> payload is
  kept, and every other payload gives the empty string.
\<close>

theorem decode_content_total:
  "(\<exists>m. make_message env u row = Inr m)
   \<and> (\<forall>b. sel_message_content row = PyBytes b \<longrightarrow>
         (zstandard env = None
          \<or> (\<exists>d. zstandard env = Some d
                \<and> ((\<exists>e. d b = Inl e) \<or> (\<exists>raw e. d b = Inr raw \<and> utf8_decode raw = Inl e)))) \<longrightarrow>
         content (projr (make_message env u row)) = (if b = [] then [] else utf8_decode_ignore b))
   \<and> (\<forall>b d raw s. sel_message_content row = PyBytes b \<longrightarrow> zstandard env = Some d \<longrightarrow>
         d b = Inr raw \<longrightarrow> utf8_decode raw = Inr s \<longrightarrow>
         content (projr (make_message env u row)) = s)
   \<and> (\<forall>s. sel_message_content row = PyStr s \<longrightarrow> content (projr (make_message env u row)) = s)
   \<and> ((\<forall>b. sel_message_content row \<noteq> PyBytes b) \<and> (\<forall>s. sel_message_content row \<noteq> PyStr s) \<longrightarrow>
         content (projr (make_message env u row)) = [])"
proof (intro conjI allI impI)
  show "\<exists>m. make_message env u row = Inr m"
    using make_message_Inr by blast
next
  fix b
  assume "sel_message_content row = PyBytes b"
    and "zstandard env = None
          \<or> (\<exists>d. zstandard env = Some d
                \<and> ((\<exists>e. d b = Inl e) \<or> (\<exists>raw e. d b = Inr raw \<and> utf8_decode raw = Inl e)))"
  then show "content (projr (make_message env u row)) = (if b = [] then [] else utf8_decode_ignore b)"
    by (auto simp: content_make_message zstd_decode_def)
next
  fix b d raw s
  assume "sel_message_content row = PyBytes b" "zstandard env = Some d" "d b = Inr raw"
    "utf8_decode raw = Inr s"
  then show "content (projr (make_message env u row)) = s"
    by (simp add: content_make_message zstd_decode_def)
next
  fix s
  assume "sel_message_content row = PyStr s"
  then show "content (projr (make_message env u row)) = s"
    by (simp add: content_make_message)
next
  assume "(\<forall>b. sel_message_content row \<noteq> PyBytes b) \<and> (\<forall>s. sel_message_content row \<noteq> PyStr s)"
  then show "content (projr (make_message env u row)) = []"
    by (cases "sel_message_content row") (simp_all add: content_make_message)
qed

theorem decode_content_total_witness:
  "sel_message_content garbage_row = PyBytes [0xFF, 0x6F, 0x6B]
   \<and> zstandard sample_env = None
   \<and> (\<exists>m. make_message sample_env (lit ''alice'') garbage_row = Inr m)
   \<and> content (projr (make_message sample_env (lit ''alice'') garbage_row)) = lit ''ok''"
proof -
  have c: "sel_message_content garbage_row = PyBytes [0xFF, 0x6F, 0x6B]"
    by (simp add: garbage_row_def plain_row_def sample_row_def)
  have z: "zstandard sample_env = None"
    by (simp add: sample_env_def)
  have d: "utf8_decode_ignore [0xFF, 0x6F, 0x6B] = lit ''ok''"
    by (simp add: utf8_decode_ignore_def lit_def)
  from decode_content_total [of sample_env "lit ''alice''" garbage_row] c z d
  show ?thesis by simp
qed

section \<open>Properties of the table name\<close>

text \<open>
  The digest has 16 bytes, so its rendering has 32 digits, each a digit or a letter from
  \<open>a\<close> to \<open>f\<close>. Two test vectors tie the model of MD5 to \<open>hashlib\<close>.
\<close>

lemma length_md5: "length (md5 m) = 16"
  by (simp add: md5_def le_bytes_def Let_def split: prod.splits)

lemma length_hexdigest: "length (hexdigest d) = 2 * length d"
  by (induction d) (simp_all add: hexdigest_def)

lemma is_hex_lower_hex_digit: "n < 16 \<Longrightarrow> is_hex_lower (hex_digit n)"
  by (auto simp: is_hex_lower_def hex_digit_def)

lemma hexdigest_hex: "list_all is_hex_lower (hexdigest d)"
proof (induction d)
  case Nil
  then show ?case by (simp add: hexdigest_def)
next
  case (Cons b d)
  have "unat b < 256" using unsigned_less [of b, where ?'a = nat] by simp
  then have "unat b div 16 < 16" by simp
  moreover have "unat b mod 16 < 16" by simp
  ultimately show ?case
    using Cons by (simp add: hexdigest_def is_hex_lower_hex_digit)
qed

lemma length_lit_Msg: "length (lit ''Msg_'') = 4"
  by (simp add: lit_def)

lemma table_shape_digest: "length d = 16 \<Longrightarrow> table_shape (lit ''Msg_'' @ hexdigest d)"
  by (simp add: table_shape_def length_hexdigest hexdigest_hex length_lit_Msg)

lemma table_shape_md5: "table_shape (lit ''Msg_'' @ hexdigest (md5 b))"
  by (rule table_shape_digest) (rule length_md5)

lemma md5_empty: "hexdigest (md5 []) = lit ''d41d8cd98f00b204e9800998ecf8427e''"
  by code_simp



text \<open>
  The encoding of an identifier fails exactly when the identifier holds a surrogate.
\<close>

lemma encode_cp_surrogate:
  "encode_cp c = Inl e \<longleftrightarrow> e = UnicodeEncodeError \<and> 0xD800 \<le> c \<and> c \<le> 0xDFFF"
  by (auto simp: encode_cp_def)

lemma utf8_encode_fails:
  "(\<exists>e. utf8_encode u = Inl e) \<longleftrightarrow> (\<exists>c \<in> set u. 0xD800 \<le> c \<and> c \<le> 0xDFFF)"
proof (induction u)
  case Nil
  then show ?case by simp
next
  case (Cons c cs)
  show ?case
  proof (cases "encode_cp c")
    case (Inl e)
    then show ?thesis using encode_cp_surrogate [of c e] by auto
  next
    case (Inr b)
    then have "\<not> (0xD800 \<le> c \<and> c \<le> 0xDFFF)"
      using encode_cp_surrogate [of c UnicodeEncodeError] by auto
    with Inr Cons show ?thesis by (auto split: sum.splits)
  qed
qed

lemma utf8_encode_error: "utf8_encode u = Inl e \<Longrightarrow> e = UnicodeEncodeError"
  by (induction u arbitrary: e) (auto simp: encode_cp_surrogate split: sum.splits)

section \<open>Properties of the shard loop\<close>

text \<open>
  The loop over the rows appends one message for each row; the body of the \<open>try\<close>
  appends what the shard alone would give; the loop over the shards concatenates the
  parts of the shards in order and prints one warning for each shard that raises.
\<close>

lemma append_rows_eq:
  "append_rows env u rows acc = (None, acc @ map (\<lambda>r. projr (make_message env u r)) rows)"
proof (induction rows arbitrary: acc)
  case Nil
  then show ?case by simp
next
  case (Cons row rows)
  have "append_rows env u (row # rows) acc
        = append_rows env u rows (acc @ [projr (make_message env u row)])"
    by (subst append_rows.simps, subst make_message_Inr) simp
  then show ?case by (simp add: Cons.IH)
qed

lemma read_shard_acc:
  "read_shard env db tn u lim off st acc
    = (shard_error env db tn u lim off st, acc @ shard_messages env db tn u lim off st)"
  by (simp add: read_shard_def shard_error_def shard_messages_def append_rows_eq
      split: option.splits sum.splits)

lemma scan_shards_eq:
  "scan_shards env tn u lim off st i dbs (acc, lg)
    = (acc @ concat (map (\<lambda>db. shard_messages env db tn u lim off st) dbs),
       lg @ shard_errors env tn u lim off st i dbs)"
proof (induction dbs arbitrary: i acc lg)
  case Nil
  then show ?case by simp
next
  case (Cons db dbs)
  show ?case
    by (cases "shard_error env db tn u lim off st")
       (simp_all add: read_shard_acc Cons.IH)
qed


lemma shard_errors_mem:
  "ErrorGettingMessages j e \<in> set (shard_errors env tn u lim off st i dbs) \<longleftrightarrow>
    i \<le> j \<and> j < i + length dbs \<and> shard_error env (dbs ! (j - i)) tn u lim off st = Some e"
proof (induction dbs arbitrary: i)
  case Nil
  then show ?case by simp
next
  case (Cons db dbs)
  show ?case
  proof (cases "j = i")
    case True
    then show ?thesis using Cons [of "Suc i"] by (auto split: option.splits)
  next
    case False
    then have "(j - i) = Suc (j - Suc i) \<or> j < i" by arith
    then show ?thesis using False Cons [of "Suc i"] by (auto split: option.splits)
  qed
qed



lemma shard_messages_no_table:
  "\<not> has_table db tn \<Longrightarrow> shard_messages env db tn u lim off st = []"
  by (simp add: shard_messages_def read_shard_def has_table_def split: option.splits)


lemma shard_messages_error:
  "shard_error env db tn u lim off st = Some e \<Longrightarrow> shard_messages env db tn u lim off st = []"
  by (auto simp: shard_messages_def shard_error_def read_shard_def append_rows_eq
      split: option.splits sum.splits if_splits)

lemma shard_messages_cases:
  "shard_messages env db tn u lim off st = [] \<or>
   (\<exists>rows. map_of (msg_tables db) tn = Some (MsgTable rows) \<and>
      map create_time (shard_messages env db tn u lim off st)
        = map row_create_time (select_rows rows lim off st))"
  by (auto simp: shard_messages_def read_shard_def append_rows_eq joined_query_def
      plain_query_def create_time_make_message comp_def joined_row_def plain_row_def Let_def
      split: option.splits sum.splits if_splits msg_table.splits)


lemma desc_window:
  "sorted_wrt P xs \<Longrightarrow> sorted_wrt P (window lim off xs)"
  by (simp add: window_def Let_def sorted_wrt_take sorted_wrt_drop)

lemma desc_select_rows:
  "sorted_wrt (\<lambda>a b. row_create_time b \<le> row_create_time a) (select_rows rows lim off st)"
proof -
  have "sorted (map (\<lambda>r. - row_create_time r) (sort_key (\<lambda>r. - row_create_time r) xs))" for xs
    by (rule sorted_sort_key)
  then have "sorted_wrt (\<lambda>a b. row_create_time b \<le> row_create_time a)
               (sort_key (\<lambda>r. - row_create_time r) xs)" for xs
    by (simp add: sorted_map)
  then show ?thesis
    unfolding select_rows_def by (intro desc_window)
qed

lemma desc_shard_messages:
  "sorted_wrt (\<lambda>a b. b \<le> a) (map create_time (shard_messages env db tn u lim off st))"
proof -
  from shard_messages_cases [of env db tn u lim off st]
  show ?thesis
  proof
    assume "shard_messages env db tn u lim off st = []"
    then show ?thesis by simp
  next
    assume "\<exists>rows. map_of (msg_tables db) tn = Some (MsgTable rows) \<and>
      map create_time (shard_messages env db tn u lim off st)
        = map row_create_time (select_rows rows lim off st)"
    then obtain rows where
      "map create_time (shard_messages env db tn u lim off st)
        = map row_create_time (select_rows rows lim off st)" by blast
    then show ?thesis
      using desc_select_rows [of rows lim off st] by (simp add: sorted_wrt_map)
  qed
qed


section \<open>Properties of \<open>get_messages\<close>\<close>

text \<open>
  A derived table name passes the validation, so \<open>get_messages\<close> returns the sorted
  concatenation of the parts of the shards whenever the identifier can be encoded.
\<close>

lemma get_messages_in_eq:
  "re_match_table tn \<Longrightarrow>
   get_messages_in env dbs tn u lim off st =
     \<lparr>messages = sort_key create_time (concat (map (\<lambda>db. shard_messages env db tn u lim off st) dbs)),
      total_count = length (concat (map (\<lambda>db. shard_messages env db tn u lim off st) dbs)),
      err_log = shard_errors env tn u lim off st 0 dbs\<rparr>"
  by (simp add: get_messages_in_def scan_shards_eq)


lemma get_messages_table:
  assumes "table_name_of u = Inr tn"
  shows "re_match_table tn"
  using assms table_shape_md5
  by (auto simp: table_name_of_def re_match_table_def split: sum.splits)

lemma get_messages_eq:
  assumes "table_name_of u = Inr tn"
  shows "get_messages env dbs u lim off st =
    Inr \<lparr>messages = sort_key create_time (concat (map (\<lambda>db. shard_messages env db tn u lim off st) dbs)),
         total_count = length (concat (map (\<lambda>db. shard_messages env db tn u lim off st) dbs)),
         err_log = shard_errors env tn u lim off st 0 dbs\<rparr>"
proof (cases "dbs = []")
  case True
  then show ?thesis by (simp add: get_messages_def)
next
  case False
  then show ?thesis
    using assms get_messages_in_eq [OF get_messages_table [OF assms]]
    by (simp add: get_messages_def)
qed







text \<open>
  What holds of the handling of errors in \<open>get_messages\<close>: without shard databases
  the result is empty; a shard that raises is skipped, and the other shards are read as
  if it were not there; each shard that raises is reported once, by its index; when
  every shard raises or lacks the table the result is empty with total 0. All of it
  is for an identifier that has a UTF-8 encoding.
\<close>

lemma get_messages_no_shards:
  "get_messages env [] u lim off st = Inr \<lparr>messages = [], total_count = 0, err_log = []\<rparr>"
  by (simp add: get_messages_def)

lemma get_messages_skips_failed_shard:
  assumes "table_name_of u = Inr tn"
    and "shard_error env db tn u lim off st = Some e"
  shows "\<exists>res res'. get_messages env (dbs1 @ db # dbs2) u lim off st = Inr res
    \<and> get_messages env (dbs1 @ dbs2) u lim off st = Inr res'
    \<and> messages res = messages res' \<and> total_count res = total_count res'"
  using get_messages_eq [OF assms(1), of env "dbs1 @ db # dbs2" lim off st]
    get_messages_eq [OF assms(1), of env "dbs1 @ dbs2" lim off st]
    shard_messages_error [OF assms(2)]
  by simp

lemma get_messages_logs_failed_shards:
  assumes "table_name_of u = Inr tn"
  shows "\<exists>res. get_messages env dbs u lim off st = Inr res
    \<and> (\<forall>j e. ErrorGettingMessages j e \<in> set (err_log res) \<longleftrightarrow>
          j < length dbs \<and> shard_error env (dbs ! j) tn u lim off st = Some e)"
  using get_messages_eq [OF assms, of env dbs lim off st] shard_errors_mem [of _ _ env tn u lim off st 0 dbs]
  by simp

lemma get_messages_nothing_read:
  assumes "table_name_of u = Inr tn"
    and "\<forall>db \<in> set dbs. shard_error env db tn u lim off st \<noteq> None \<or> \<not> has_table db tn"
  shows "\<exists>res. get_messages env dbs u lim off st = Inr res
    \<and> messages res = [] \<and> total_count res = 0"
proof -
  have "shard_messages env db tn u lim off st = []" if "db \<in> set dbs" for db
    using assms(2) that shard_messages_error shard_messages_no_table by blast
  then have c: "concat (map (\<lambda>db. shard_messages env db tn u lim off st) dbs) = []"
    by simp
  show ?thesis
    unfolding get_messages_eq [OF assms(1), of env dbs lim off st] c by simp
qed

text \<open>
  C4. The claim says that \<open>get_messages\<close> never lets an exception reach its caller.
  Line 369 encodes the identifier outside every \<open>try\<close>: for an identifier with a lone
  surrogate (as \<open>sys.argv\<close> holds for a byte that is not UTF-8) and at least one shard
  database, \<open>UnicodeEncodeError\<close> leaves \<open>get_messages\<close>.
\<close>

theorem get_messages_surrogate_raises:
  "get_messages sample_env [sample_shard_a] [0xDC80] 100 0 0 = Inl UnicodeEncodeError"
  by (simp add: get_messages_def table_name_of_def encode_cp_def)




section \<open>Properties of \<open>get_contacts\<close> and \<open>get_groups\<close>\<close>

text \<open>
  What the helpers change in the trace of statements and in the printed lines, and when
  the newer query raises \<open>OperationalError\<close>: on a connection that raises it for every
  statement, without the table, and with the table of the older schema.
\<close>

lemma executed_register [simp]: "executed (register cs r) = executed r"
  by (simp add: register_def)

lemma err_out_register [simp]: "err_out (register cs r) = err_out r"
  by (simp add: register_def)

lemma executed_log_err [simp]: "executed (log_err l r) = executed r"
  by (simp add: log_err_def)

lemma err_out_log_err [simp]: "err_out (log_err l r) = err_out r @ [l]"
  by (simp add: log_err_def)

lemma executed_run_stmt [simp]: "executed (run_stmt q r) = executed r @ [q]"
  by (simp add: run_stmt_def)

lemma err_out_run_stmt [simp]: "err_out (run_stmt q r) = err_out r"
  by (simp add: run_stmt_def)


lemma err_out_member_counts:
  "err_out (foldl (\<lambda>r' row. run_stmt (SelectExtBuffer (col_username row)) r') r rows) = err_out r"
  by (induction rows arbitrary: r) simp_all

lemma query_contacts_new_operational:
  "query_contacts_new db = Inl OperationalError \<longleftrightarrow>
    fault db = Some OperationalError
    \<or> (fault db = None \<and> (contact_tbl db = NoContactTable \<or> (\<exists>rows. contact_tbl db = OldSchema rows)))"
  by (auto simp: query_contacts_new_def split: option.splits contact_table.splits)

lemma query_groups_new_operational:
  "query_groups_new db = Inl OperationalError \<longleftrightarrow>
    fault db = Some OperationalError
    \<or> (fault db = None \<and> (contact_tbl db = NoContactTable \<or> (\<exists>rows. contact_tbl db = OldSchema rows)))"
  by (auto simp: query_groups_new_def split: option.splits contact_table.splits)







text \<open>
  Each contact that \<open>get_contacts\<close> returns is flagged as a chat room exactly when
  its identifier ends in \<open>@chatroom\<close>.
\<close>

lemma get_contacts_is_chatroom:
  "c \<in> set (fst (get_contacts r)) \<Longrightarrow> is_chatroom c = endswith (wxid c) (lit ''@chatroom'')"
  by (auto simp: get_contacts_def contact_of_new_def contact_of_old_def Let_def
      split: option.splits sum.splits if_splits)

lemma to_dict_friend:
  "\<not> is_chatroom c \<Longrightarrow> is_chatroom c = endswith (wxid c) (lit ''@chatroom'') \<Longrightarrow>
    dict_type (to_dict c) = lit ''friend'' \<and> \<not> endswith (dict_id (to_dict c)) (lit ''@chatroom'')"
  by (simp add: to_dict_def)

lemma sample_contacts_run:
  "cmd_contacts sample_fs (lit ''/data'')
    = [\<lparr>dict_id = lit ''alice'', dict_name = lit ''Alice'', dict_alias = [], dict_avatar = None,
        dict_type = lit ''friend'', dict_memberCount = 0\<rparr>]"
  by code_simp

lemma sample_contacts_registered:
  "map fst (contacts_map (snd (get_contacts (snd (init_database sample_fs (new_reader (lit ''/data'')))))))
    = [lit ''alice'', lit ''team@chatroom'']"
  by code_simp

text \<open>
  C9. Every record that the command \<open>contacts\<close> prints has the kind \<open>friend\<close>,
  and none has an identifier that ends in \<open>@chatroom\<close>: the command drops the
  contacts flagged as chat rooms. The scan itself can match a chat room and register it
  in \<open>contacts_map\<close>, as it does on the sample root.
\<close>

theorem cmd_contacts_no_chatroom:
  "\<forall>d \<in> set (cmd_contacts fs root).
     dict_type d = lit ''friend'' \<and> \<not> endswith (dict_id d) (lit ''@chatroom'')"
proof
  fix d
  assume "d \<in> set (cmd_contacts fs root)"
  then obtain r c where "c \<in> set (fst (get_contacts r))" "\<not> is_chatroom c" "d = to_dict c"
    by (auto simp: cmd_contacts_def split: prod.splits bool.splits)
  then show "dict_type d = lit ''friend'' \<and> \<not> endswith (dict_id d) (lit ''@chatroom'')"
    using get_contacts_is_chatroom to_dict_friend by blast
qed

theorem cmd_contacts_no_chatroom_witness:
  "\<lparr>dict_id = lit ''alice'', dict_name = lit ''Alice'', dict_alias = [], dict_avatar = None,
     dict_type = lit ''friend'', dict_memberCount = 0\<rparr> \<in> set (cmd_contacts sample_fs (lit ''/data''))
   \<and> dict_type \<lparr>dict_id = lit ''alice'', dict_name = lit ''Alice'', dict_alias = [],
        dict_avatar = None, dict_type = lit ''friend'', dict_memberCount = 0\<rparr> = lit ''friend''
   \<and> \<not> endswith (dict_id \<lparr>dict_id = lit ''alice'', dict_name = lit ''Alice'', dict_alias = [],
        dict_avatar = None, dict_type = lit ''friend'', dict_memberCount = 0\<rparr>) (lit ''@chatroom'')
   \<and> lit ''team@chatroom'' \<in> fst ` set (contacts_map (snd (get_contacts
        (snd (init_database sample_fs (new_reader (lit ''/data'')))))))"
proof -
  let ?d = "\<lparr>dict_id = lit ''alice'', dict_name = lit ''Alice'', dict_alias = [], dict_avatar = None,
     dict_type = lit ''friend'', dict_memberCount = 0\<rparr>"
  have m: "?d \<in> set (cmd_contacts sample_fs (lit ''/data''))"
    unfolding sample_contacts_run by simp
  have "lit ''team@chatroom'' \<in> set (map fst (contacts_map (snd (get_contacts
        (snd (init_database sample_fs (new_reader (lit ''/data''))))))))"
    unfolding sample_contacts_registered by simp
  then show ?thesis
    using cmd_contacts_no_chatroom [of sample_fs "lit ''/data''", THEN bspec, OF m] m by simp
qed

section \<open>Properties of \<open>init_database\<close>\<close>

text \<open>
  The nested conditions of the source try the paths in the order of the lists. Each
  step of the initialization leaves the fields of the other steps as they are.
\<close>

lemma open_contact_find:
  "open_contact fs r =
    (case find (path_exists fs) (contact_paths (db_dir r)) of
       None \<Rightarrow> (None, r)
     | Some p \<Rightarrow> connect_contact fs p r)"
  by (simp add: open_contact_def contact_paths_def Let_def)

lemma open_session_find:
  "open_session fs r =
    (case find (path_exists fs) (session_paths (db_dir r)) of
       None \<Rightarrow> (None, r)
     | Some p \<Rightarrow> connect_session fs p r)"
  by (simp add: open_session_def session_paths_def Let_def)

lemma connect_contact_fields [simp]:
  "session_db (snd (connect_contact fs p r)) = session_db r"
  "message_dbs (snd (connect_contact fs p r)) = message_dbs r"
  "contacts_map (snd (connect_contact fs p r)) = contacts_map r"
  "db_dir (snd (connect_contact fs p r)) = db_dir r"
  "initialized (snd (connect_contact fs p r)) = initialized r"
  by (simp_all add: connect_contact_def split: sum.splits)

lemma connect_session_fields [simp]:
  "contact_db (snd (connect_session fs p r)) = contact_db r"
  "message_dbs (snd (connect_session fs p r)) = message_dbs r"
  "contacts_map (snd (connect_session fs p r)) = contacts_map r"
  "db_dir (snd (connect_session fs p r)) = db_dir r"
  "initialized (snd (connect_session fs p r)) = initialized r"
  by (simp_all add: connect_session_def split: sum.splits)

lemma connect_message_fields [simp]:
  "contact_db (snd (connect_message fs p r)) = contact_db r"
  "session_db (snd (connect_message fs p r)) = session_db r"
  "contacts_map (snd (connect_message fs p r)) = contacts_map r"
  "db_dir (snd (connect_message fs p r)) = db_dir r"
  "initialized (snd (connect_message fs p r)) = initialized r"
  by (simp_all add: connect_message_def split: sum.splits)

lemma open_contact_fields [simp]:
  "session_db (snd (open_contact fs r)) = session_db r"
  "message_dbs (snd (open_contact fs r)) = message_dbs r"
  "contacts_map (snd (open_contact fs r)) = contacts_map r"
  "db_dir (snd (open_contact fs r)) = db_dir r"
  "initialized (snd (open_contact fs r)) = initialized r"
  by (simp_all add: open_contact_find split: option.splits)

lemma open_session_fields [simp]:
  "contact_db (snd (open_session fs r)) = contact_db r"
  "message_dbs (snd (open_session fs r)) = message_dbs r"
  "contacts_map (snd (open_session fs r)) = contacts_map r"
  "db_dir (snd (open_session fs r)) = db_dir r"
  "initialized (snd (open_session fs r)) = initialized r"
  by (simp_all add: open_session_find split: option.splits)

lemma scan_numbered_fields:
  "contact_db (snd (scan_numbered fs dir is r)) = contact_db r
   \<and> session_db (snd (scan_numbered fs dir is r)) = session_db r
   \<and> contacts_map (snd (scan_numbered fs dir is r)) = contacts_map r
   \<and> initialized (snd (scan_numbered fs dir is r)) = initialized r"
proof (induction "is" arbitrary: r)
  case Nil
  then show ?case by simp
next
  case (Cons i "is")
  obtain eo r' where c: "connect_message fs (path_join dir [message_file i]) r = (eo, r')"
    by (cases "connect_message fs (path_join dir [message_file i]) r")
  then have "r' = snd (connect_message fs (path_join dir [message_file i]) r)" by simp
  then have f: "contact_db r' = contact_db r" "session_db r' = session_db r"
    "contacts_map r' = contacts_map r" "initialized r' = initialized r" by simp_all
  show ?case
    using c f Cons.IH [of r'] by (cases eo) (simp_all add: Let_def)
qed

lemma scan_named_fields:
  "contact_db (snd (scan_named fs dir names r)) = contact_db r
   \<and> session_db (snd (scan_named fs dir names r)) = session_db r
   \<and> contacts_map (snd (scan_named fs dir names r)) = contacts_map r
   \<and> initialized (snd (scan_named fs dir names r)) = initialized r"
proof (induction names arbitrary: r)
  case Nil
  then show ?case by simp
next
  case (Cons n names)
  obtain eo r' where c: "connect_message fs (path_join dir [n]) r = (eo, r')"
    by (cases "connect_message fs (path_join dir [n]) r")
  then have "r' = snd (connect_message fs (path_join dir [n]) r)" by simp
  then have f: "contact_db r' = contact_db r" "session_db r' = session_db r"
    "contacts_map r' = contacts_map r" "initialized r' = initialized r" by simp_all
  show ?case
    using c f Cons.IH [of r'] Cons.IH [of r] by (cases eo) simp_all
qed

lemma open_messages_fields [simp]:
  "contact_db (snd (open_messages fs r)) = contact_db r"
  "session_db (snd (open_messages fs r)) = session_db r"
  "contacts_map (snd (open_messages fs r)) = contacts_map r"
  "initialized (snd (open_messages fs r)) = initialized r"
  by (simp_all add: open_messages_def Let_def scan_numbered_fields scan_named_fields
      split: sum.splits)

lemma message_file_0: "message_file 0 = lit ''message_0.db''"
  by (simp add: message_file_def str_of_nat.simps lit_def)

lemma scan_named_no_match:
  "list_all (\<lambda>n. \<not> (startswith n (lit ''MSG'') \<and> endswith n (lit ''.db''))) names \<Longrightarrow>
    scan_named fs dir names r = (None, r)"
  by (induction names) auto

lemma scan_numbered_first_missing:
  assumes "\<not> path_exists fs (path_join dir [lit ''message_0.db''])"
  shows "scan_numbered fs dir [0..<100] r = (None, r)"
proof -
  have "[0..<100] = 0 # [Suc 0..<100]"
    by (rule upt_conv_Cons) simp
  then show ?thesis
    using assms by (simp add: message_file_0)
qed

lemma open_messages_none:
  assumes "no_shard_located fs (db_dir r)"
  shows "open_messages fs r = (None, r)"
proof -
  from assms have flat: "\<not> path_exists fs (path_join (db_dir r) [lit ''message_0.db''])"
    by (simp add: no_shard_located_def)
  show ?thesis
  proof (cases "path_exists fs (path_join (db_dir r) [lit ''message''])")
    case True
    with assms have
      "\<not> path_exists fs (path_join (path_join (db_dir r) [lit ''message'']) [lit ''message_0.db''])"
      by (simp add: no_shard_located_def)
    then show ?thesis
      using flat True by (simp add: open_messages_def Let_def scan_numbered_first_missing)
  next
    case False
    show ?thesis
    proof (cases "fs (path_join (db_dir r) [lit ''Msg''])")
      case None
      then show ?thesis
        using flat False by (simp add: open_messages_def Let_def path_exists_def)
    next
      case (Some node)
      with assms False obtain names where n: "node = Directory names"
        "list_all (\<lambda>n. \<not> (startswith n (lit ''MSG'') \<and> endswith n (lit ''.db''))) names"
        by (cases node) (simp_all add: no_shard_located_def)
      then show ?thesis
        using flat False Some
        by (simp add: open_messages_def Let_def path_exists_def listdir_def scan_named_no_match)
    qed
  qed
qed

lemma init_body_contacts_map [simp]:
  "contacts_map (snd (init_body fs r)) = contacts_map r"
  "initialized (snd (init_body fs r)) = initialized r"
proof -
  obtain e1 r1 where o1: "open_contact fs r = (e1, r1)" by (cases "open_contact fs r")
  obtain e2 r2 where o2: "open_session fs r1 = (e2, r2)" by (cases "open_session fs r1")
  have "contacts_map r1 = contacts_map r" "initialized r1 = initialized r"
    using o1 open_contact_fields(3,5) [of fs r] by simp_all
  moreover have "contacts_map r2 = contacts_map r1" "initialized r2 = initialized r1"
    using o2 open_session_fields(3,5) [of fs r1] by simp_all
  ultimately show "contacts_map (snd (init_body fs r)) = contacts_map r"
    "initialized (snd (init_body fs r)) = initialized r"
    using o1 o2 by (cases e1; cases e2; simp add: init_body_def)+
qed

lemma init_body_contact_db:
  "contact_db (snd (init_body fs r)) = contact_db (snd (open_contact fs r))"
proof -
  obtain e1 r1 where o1: "open_contact fs r = (e1, r1)" by (cases "open_contact fs r")
  obtain e2 r2 where o2: "open_session fs r1 = (e2, r2)" by (cases "open_session fs r1")
  have "contact_db r2 = contact_db r1"
    using o2 open_session_fields(1) [of fs r1] by simp
  then show ?thesis
    using o1 o2 by (cases e1; cases e2) (simp_all add: init_body_def)
qed

lemma init_database_fields:
  "contact_db (snd (init_database fs r)) = contact_db (snd (open_contact fs r))"
  "contacts_map (snd (init_database fs r)) = contacts_map r"
  "fst (init_database fs r) \<Longrightarrow> contact_db (snd (open_contact fs r)) \<noteq> None"
  "\<not> initialized r \<Longrightarrow> initialized (snd (init_database fs r)) = fst (init_database fs r)"
proof -
  obtain e r' where b: "init_body fs r = (e, r')" by (cases "init_body fs r")
  have c: "contact_db r' = contact_db (snd (open_contact fs r))"
    using b init_body_contact_db [of fs r] by simp
  have m: "contacts_map r' = contacts_map r"
    using b init_body_contacts_map [of fs r] by simp
  show "contact_db (snd (init_database fs r)) = contact_db (snd (open_contact fs r))"
    using b c by (cases e) (simp_all add: init_database_def log_err_def)
  show "contacts_map (snd (init_database fs r)) = contacts_map r"
    using b m by (cases e) (simp_all add: init_database_def log_err_def)
  show "fst (init_database fs r) \<Longrightarrow> contact_db (snd (open_contact fs r)) \<noteq> None"
    using b c by (cases e) (simp_all add: init_database_def)
  have i: "initialized r' = initialized r"
    using b init_body_contacts_map(2) [of fs r] by simp
  show "\<not> initialized r \<Longrightarrow> initialized (snd (init_database fs r)) = fst (init_database fs r)"
    using b i by (cases e) (simp_all add: init_database_def log_err_def)
qed


lemma init_body_no_shards:
  assumes "no_shard_located fs (db_dir r)"
  shows "message_dbs (snd (init_body fs r)) = message_dbs r"
proof -
  obtain e1 r1 where o1: "open_contact fs r = (e1, r1)" by (cases "open_contact fs r")
  obtain e2 r2 where o2: "open_session fs r1 = (e2, r2)" by (cases "open_session fs r1")
  have f1: "message_dbs r1 = message_dbs r" "db_dir r1 = db_dir r"
    using o1 open_contact_fields(2,4) [of fs r] by simp_all
  have f2: "message_dbs r2 = message_dbs r1" "db_dir r2 = db_dir r1"
    using o2 open_session_fields(2,4) [of fs r1] by simp_all
  have "open_messages fs r2 = (None, r2)"
    using assms f1 f2 by (simp add: open_messages_none)
  then show ?thesis
    using o1 o2 f1 f2 by (cases e1; cases e2) (simp_all add: init_body_def)
qed

lemma init_database_no_shards:
  assumes "no_shard_located fs (db_dir r)"
  shows "message_dbs (snd (init_database fs r)) = message_dbs r"
proof -
  obtain e r' where b: "init_body fs r = (e, r')" by (cases "init_body fs r")
  then have "message_dbs r' = message_dbs r"
    using init_body_no_shards [OF assms] by simp
  then show ?thesis
    using b by (cases e) (simp_all add: init_database_def log_err_def)
qed

lemma new_reader_fields [simp]:
  "db_dir (new_reader d) = d" "contact_db (new_reader d) = None"
  "session_db (new_reader d) = None" "message_dbs (new_reader d) = []"
  "contacts_map (new_reader d) = []" "\<not> initialized (new_reader d)"
  by (simp_all add: new_reader_def)


lemma sample_end_to_end:
  "(case init_database sample_fs (new_reader (lit ''/data'')) of
      (ok, r) \<Rightarrow>
        (ok, map_sum id (\<lambda>res. (map create_time (messages res), total_count res, err_log res))
               (get_messages sample_env (message_dbs r) (lit ''alice'') 10 0 0)))
    = (True, Inr ([50, 75, 100, 120], 4, []))"
  by code_simp




text \<open>
  C6, as the claim states it, fails: on a root with \<open>message_0.db\<close> and no contact
  store, \<open>init_database\<close> returns \<open>False\<close> and the status reports one shard.
\<close>

theorem status_counterexample:
  "find (path_exists fs_only_shard) (contact_paths (lit ''/data'')) = None
   \<and> \<not> fst (init_database fs_only_shard (new_reader (lit ''/data'')))
   \<and> cmd_status fs_only_shard (lit ''/data'')
       = \<lparr>st_initialized = False, hasContactDb = False, hasSessionDb = False,
          messageDbCount = 1, contactCount = 0, dbVersion = 4\<rparr>"
  by code_simp

text \<open>
  C6, amended. A reader on which \<open>init_database\<close> has not been called reports
  \<open>initialized = False\<close> and zero for both counts. The command \<open>status\<close> always
  reports zero contacts; it reports \<open>initialized = False\<close> whenever \<open>init_database\<close>
  fails, and \<open>hasContactDb = False\<close> as well when no contact store exists; it reports
  zero shards when no shard database is located.
\<close>

theorem status_before_init:
  "get_status (new_reader d)
     = \<lparr>st_initialized = False, hasContactDb = False, hasSessionDb = False,
        messageDbCount = 0, contactCount = 0, dbVersion = 4\<rparr>
   \<and> contactCount (cmd_status fs d) = 0
   \<and> (\<not> fst (init_database fs (new_reader d)) \<longrightarrow> \<not> st_initialized (cmd_status fs d))
   \<and> (find (path_exists fs) (contact_paths d) = None \<longrightarrow>
        \<not> st_initialized (cmd_status fs d) \<and> \<not> hasContactDb (cmd_status fs d))
   \<and> (no_shard_located fs d \<longrightarrow> messageDbCount (cmd_status fs d) = 0)"
proof (intro conjI impI)
  show "get_status (new_reader d)
     = \<lparr>st_initialized = False, hasContactDb = False, hasSessionDb = False,
        messageDbCount = 0, contactCount = 0, dbVersion = 4\<rparr>"
    by (simp add: get_status_def new_reader_def)
  show "contactCount (cmd_status fs d) = 0"
    by (simp add: cmd_status_def get_status_def init_database_fields(2))
next
  assume "\<not> fst (init_database fs (new_reader d))"
  then show "\<not> st_initialized (cmd_status fs d)"
    using init_database_fields(4) [of "new_reader d" fs]
    by (simp add: cmd_status_def get_status_def)
next
  assume n: "find (path_exists fs) (contact_paths d) = None"
  then have c: "contact_db (snd (open_contact fs (new_reader d))) = None"
    by (simp add: open_contact_find)
  then have "\<not> fst (init_database fs (new_reader d))"
    using init_database_fields(3) [of fs "new_reader d"] by blast
  then show "\<not> st_initialized (cmd_status fs d)"
    using init_database_fields(4) [of "new_reader d" fs]
    by (simp add: cmd_status_def get_status_def)
  show "\<not> hasContactDb (cmd_status fs d)"
    using c by (simp add: cmd_status_def get_status_def init_database_fields(1))
next
  assume "no_shard_located fs d"
  then show "messageDbCount (cmd_status fs d) = 0"
    using init_database_no_shards [of fs "new_reader d"]
    by (simp add: cmd_status_def get_status_def)
qed

theorem status_before_init_witness:
  "find (path_exists Map.empty) (contact_paths (lit ''/data'')) = None
   \<and> no_shard_located Map.empty (lit ''/data'')
   \<and> \<not> fst (init_database Map.empty (new_reader (lit ''/data'')))
   \<and> \<not> st_initialized (cmd_status Map.empty (lit ''/data''))
   \<and> \<not> hasContactDb (cmd_status Map.empty (lit ''/data''))
   \<and> messageDbCount (cmd_status Map.empty (lit ''/data'')) = 0
   \<and> contactCount (cmd_status Map.empty (lit ''/data'')) = 0"
proof -
  have f: "find (path_exists Map.empty) (contact_paths (lit ''/data'')) = None"
    by (simp add: path_exists_def contact_paths_def)
  have n: "no_shard_located Map.empty (lit ''/data'')"
    by (simp add: no_shard_located_def path_exists_def)
  have i: "\<not> fst (init_database Map.empty (new_reader (lit ''/data'')))"
    by code_simp
  from status_before_init [of "lit ''/data''" Map.empty] f n i
  show ?thesis by simp
qed

end
